theory Spec2Isabelle
  imports Main "HOL-Library.Word"
begin

section \<open>The Elasticsearch (v7) adapter of go-libraryofcongress-database\<close>

text \<open>
  A shallow embedding of \<^verbatim>\<open>elasticsearch_v7.go\<close>: the constructor
  \<^verbatim>\<open>NewElasticsearchV7Database\<close>, the ingestion methods \<^verbatim>\<open>Index\<close> and
  \<^verbatim>\<open>indexSource\<close>, and \<^verbatim>\<open>Query\<close>.  Go's \<^verbatim>\<open>int\<close> is taken to be 64 bits
  wide (the \<^verbatim>\<open>amd64\<close> and \<^verbatim>\<open>arm64\<close> ports).  Functions the file calls in
  third-party packages (the URL parser, the Elasticsearch client, the bulk
  indexer, the pagination package, the JSON codec) are parameters of the model,
  collected in records of operations; the small pure functions of Go's standard
  library that decide an option's value (\<^verbatim>\<open>url.Values.Get\<close>,
  \<^verbatim>\<open>strconv.ParseBool\<close>, \<^verbatim>\<open>strconv.Atoi\<close>, \<^verbatim>\<open>fmt.Sprintf\<close> with the
  verb \<^verbatim>\<open>%s\<close>) are written out after their documented behaviour.
\<close>

subsection \<open>Standard-library functions used by the constructor\<close>

type_synonym go_error = string

text \<open>\<^verbatim>\<open>url.Values\<close> is \<^verbatim>\<open>map[string][]string\<close>; \<^verbatim>\<open>Get\<close> returns the first
  value of the key, and the empty string when the key is absent or has no value.\<close>

type_synonym url_values = "string \<rightharpoonup> string list"

definition Get :: "url_values \<Rightarrow> string \<Rightarrow> string" where
  "Get v key = (case v key of None \<Rightarrow> [] | Some vs \<Rightarrow> (case vs of [] \<Rightarrow> [] | x # _ \<Rightarrow> x))"

text \<open>\<^verbatim>\<open>strconv.ParseBool\<close>: accepts 1, t, T, TRUE, true, True, 0, f, F, FALSE,
  false, False; any other value is an error.  The errors of package
  \<^verbatim>\<open>strconv\<close> name the function and the input; which of its two reasons
  (syntax, range) an error gives is not modelled.\<close>

definition ParseBool :: "string \<Rightarrow> go_error + bool" where
  "ParseBool str =
     (if str \<in> set [''1'', ''t'', ''T'', ''true'', ''TRUE'', ''True''] then Inr True
      else if str \<in> set [''0'', ''f'', ''F'', ''false'', ''FALSE'', ''False''] then Inr False
      else Inl (''strconv.ParseBool: '' @ str))"

text \<open>\<^verbatim>\<open>strconv.Atoi\<close>: an optional sign followed by one or more decimal digits,
  whose value fits Go's \<^verbatim>\<open>int\<close>; everything else is an error.  The digit loop is
  the one of the library (\<^verbatim>\<open>n = n*10 + int(ch)\<close>).\<close>

definition is_digit :: "char \<Rightarrow> bool" where
  "is_digit c = (48 \<le> (of_char c :: int) \<and> (of_char c :: int) \<le> 57)"

fun digits_value :: "string \<Rightarrow> int \<Rightarrow> int option" where
  "digits_value [] n = Some n"
| "digits_value (ch # s) n =
     (if is_digit ch then digits_value s (n * 10 + (of_char ch - 48)) else None)"

definition has_sign :: "string \<Rightarrow> bool" where
  "has_sign s = (case s of [] \<Rightarrow> False | c # _ \<Rightarrow> c = CHR ''-'' \<or> c = CHR ''+'')"

definition is_negative :: "string \<Rightarrow> bool" where
  "is_negative s = (case s of [] \<Rightarrow> False | c # _ \<Rightarrow> c = CHR ''-'')"

definition Atoi :: "string \<Rightarrow> go_error + int" where
  "Atoi s =
     (let body = (if has_sign s then tl s else s) in
      if body = [] then Inl (''strconv.Atoi: '' @ s)
      else (case digits_value body 0 of
              None \<Rightarrow> Inl (''strconv.Atoi: '' @ s)
            | Some n \<Rightarrow>
                if is_negative s
                then (if 2 ^ 63 < n then Inl (''strconv.Atoi: '' @ s) else Inr (- n))
                else (if 2 ^ 63 \<le> n then Inl (''strconv.Atoi: '' @ s) else Inr n)))"

text \<open>The strings a reader would call numeric: an optional sign and at least one
  decimal digit, nothing else.\<close>

definition decimal_integer :: "string \<Rightarrow> bool" where
  "decimal_integer s =
     (let body = (if has_sign s then tl s else s) in body \<noteq> [] \<and> list_all is_digit body)"

subsection \<open>The connection handle and its constructor\<close>

datatype log_writer = Discard | Stdout

record TextLogger =
  Output :: log_writer
  EnableRequestBody :: bool
  EnableResponseBody :: bool

text \<open>\<^verbatim>\<open>es.Config\<close> as the constructor fills it.  The field \<^verbatim>\<open>RetryBackoff\<close> is
  a closure over a backoff object of a third-party package; it is the function
  \<open>RetryBackoff\<close> below.\<close>

record es_Config =
  Addresses :: "string list"
  RetryOnStatus :: "int list"
  MaxRetries :: int
  Logger :: "TextLogger option"

record 'c ElasticsearchV7Database =
  client :: 'c
  index :: string
  logger :: log_writer
  workers :: int
  query_by :: string

text \<open>The calls into other packages: \<^verbatim>\<open>url.Parse\<close> followed by \<^verbatim>\<open>u.Query()\<close>,
  \<^verbatim>\<open>es.NewClient\<close>, and \<^verbatim>\<open>client.Indices.Create\<close> (of which the constructor
  reads the error only).\<close>

record 'c platform =
  url_Parse :: "string \<Rightarrow> go_error + url_values"
  es_NewClient :: "es_Config \<Rightarrow> go_error + 'c"
  Indices_Create :: "'c \<Rightarrow> string \<Rightarrow> go_error option"

datatype construct_error =
    FailedParseURI go_error
  | FailedParseWorkers go_error
  | FailedParseDebug go_error
  | FailedParseCreateIndex go_error
  | InvalidSearchBy
  | FailedCreateClient go_error
  | FailedCreateIndex go_error

text \<open>The errors that come from the connection descriptor itself, as opposed to
  the ones reported by the backend client.\<close>

fun is_configuration_error :: "construct_error \<Rightarrow> bool" where
  "is_configuration_error (FailedCreateClient _) = False"
| "is_configuration_error (FailedCreateIndex _) = False"
| "is_configuration_error _ = True"

text \<open>Lines 67--76: the \<^verbatim>\<open>workers\<close> option.\<close>

definition parse_workers :: "string \<Rightarrow> go_error + int" where
  "parse_workers str_workers = (if str_workers \<noteq> [] then Atoi str_workers else Inr 10)"

text \<open>Lines 78--88: the \<^verbatim>\<open>debug\<close> option; the result is the pair of
  \<^verbatim>\<open>debug\<close> and \<^verbatim>\<open>logger\<close>.\<close>

definition parse_debug :: "string \<Rightarrow> go_error + (bool \<times> log_writer)" where
  "parse_debug q_debug =
     (if q_debug \<noteq> []
      then (case ParseBool q_debug of Inl err \<Rightarrow> Inl err | Inr v \<Rightarrow> Inr (v, Stdout))
      else Inr (False, Discard))"

text \<open>Lines 90--99: the \<^verbatim>\<open>create-index\<close> option.\<close>

definition parse_create_index :: "string \<Rightarrow> go_error + bool" where
  "parse_create_index q_create_index =
     (if q_create_index \<noteq> [] then ParseBool q_create_index else Inr False)"

text \<open>Lines 101--111: the \<^verbatim>\<open>query-by\<close> option; \<open>None\<close> is the error return.\<close>

definition parse_query_by :: "string \<Rightarrow> string option" where
  "parse_query_by q_query_by =
     (if q_query_by \<noteq> []
      then (if q_query_by = ''text'' \<or> q_query_by = ''label'' then Some q_query_by else None)
      else Some ''label'')"

text \<open>Lines 115--139: the client configuration.\<close>

definition es_cfg :: "string \<Rightarrow> bool \<Rightarrow> es_Config" where
  "es_cfg es_endpoint debug =
     \<lparr> Addresses = [es_endpoint],
       RetryOnStatus = [502, 503, 504, 429],
       MaxRetries = 5,
       Logger = (if debug
                 then Some \<lparr> Output = Stdout, EnableRequestBody = True, EnableResponseBody = True \<rparr>
                 else None) \<rparr>"

text \<open>Lines 113 and 121--126: the closure \<^verbatim>\<open>RetryBackoff\<close> over the object
  \<^verbatim>\<open>retry\<close> that \<^verbatim>\<open>backoff.NewExponentialBackOff()\<close> returns.  The object
  belongs to a third-party package: \<open>'b\<close> is its state, and \<^verbatim>\<open>Reset\<close> and
  \<^verbatim>\<open>NextBackOff\<close> are parameters (a duration is a number of nanoseconds).\<close>

record 'b backoff =
  Reset :: "'b \<Rightarrow> 'b"
  NextBackOff :: "'b \<Rightarrow> int \<times> 'b"

definition RetryBackoff :: "'b backoff \<Rightarrow> int \<Rightarrow> 'b \<Rightarrow> int \<times> 'b" where
  "RetryBackoff bo i retry = NextBackOff bo (if i = 1 then Reset bo retry else retry)"

definition NewElasticsearchV7Database ::
  "'c platform \<Rightarrow> string \<Rightarrow> construct_error + 'c ElasticsearchV7Database" where
  "NewElasticsearchV7Database pf uri =
     (case url_Parse pf uri of
        Inl err \<Rightarrow> Inl (FailedParseURI err)
      | Inr q \<Rightarrow>
     (case parse_workers (Get q ''workers'') of
        Inl err \<Rightarrow> Inl (FailedParseWorkers err)
      | Inr w \<Rightarrow>
     (case parse_debug (Get q ''debug'') of
        Inl err \<Rightarrow> Inl (FailedParseDebug err)
      | Inr (debug, lg) \<Rightarrow>
     (case parse_create_index (Get q ''create-index'') of
        Inl err \<Rightarrow> Inl (FailedParseCreateIndex err)
      | Inr create_index \<Rightarrow>
     (case parse_query_by (Get q ''query-by'') of
        None \<Rightarrow> Inl InvalidSearchBy
      | Some qb \<Rightarrow>
     (case es_NewClient pf (es_cfg (Get q ''endpoint'') debug) of
        Inl err \<Rightarrow> Inl (FailedCreateClient err)
      | Inr es_client \<Rightarrow>
     (case (if create_index then Indices_Create pf es_client (Get q ''index'') else None) of
        Some err \<Rightarrow> Inl (FailedCreateIndex err)
      | None \<Rightarrow>
          Inr \<lparr> client = es_client, index = Get q ''index'', logger = lg,
                workers = w, query_by = qb \<rparr>)))))))"

text \<open>A platform for running the constructor on concrete descriptors: the parser
  returns the given query values, the client is its own configuration, and index
  creation succeeds.\<close>

definition fixed_platform :: "url_values \<Rightarrow> es_Config platform" where
  "fixed_platform q =
     \<lparr> url_Parse = (\<lambda>uri. Inr q), es_NewClient = (\<lambda>cfg. Inr cfg),
       Indices_Create = (\<lambda>c i. None) \<rparr>"

text \<open>Query values of a few connection descriptors, as \<^verbatim>\<open>u.Query()\<close> returns
  them: \<^verbatim>\<open>?query-by=text\<close>, \<^verbatim>\<open>?query-by=title\<close>, \<^verbatim>\<open>?query-by=\<close>, no option at
  all, \<^verbatim>\<open>?workers=0\<close>, \<^verbatim>\<open>?workers=many\<close>, \<^verbatim>\<open>?workers=4\<close> and
  \<^verbatim>\<open>?debug=false\<close>.\<close>

definition query_by_text :: url_values where
  "query_by_text = [''query-by'' \<mapsto> [''text'']]"

definition query_by_title :: url_values where
  "query_by_title = [''query-by'' \<mapsto> [''title'']]"

definition query_by_empty :: url_values where
  "query_by_empty = [''query-by'' \<mapsto> ['''']]"

definition no_options :: url_values where
  "no_options = Map.empty"

definition workers_zero :: url_values where
  "workers_zero = [''workers'' \<mapsto> [''0'']]"

definition workers_many :: url_values where
  "workers_many = [''workers'' \<mapsto> [''many'']]"

definition workers_four :: url_values where
  "workers_four = [''workers'' \<mapsto> [''4'']]"

definition debug_false :: url_values where
  "debug_false = [''debug'' \<mapsto> [''false'']]"

subsection \<open>Query\<close>

text \<open>\<^verbatim>\<open>fmt.Sprintf\<close> for the formats of this file, whose only verb is \<^verbatim>\<open>%s\<close>
  with a string operand: the operand is copied as it is, \<^verbatim>\<open>%%\<close> prints a percent
  sign, and a \<^verbatim>\<open>%s\<close> without an operand prints \<^verbatim>\<open>%!s(MISSING)\<close>.\<close>

fun Sprintf :: "string \<Rightarrow> string list \<Rightarrow> string" where
  "Sprintf [] args = []"
| "Sprintf [c] args = [c]"
| "Sprintf (c # d # fmt) args =
     (if c = CHR ''%'' \<and> d = CHR ''s''
      then (case args of
              [] \<Rightarrow> ''%!s(MISSING)'' @ Sprintf fmt []
            | a # as \<Rightarrow> a @ Sprintf fmt as)
      else if c = CHR ''%'' \<and> d = CHR ''%'' then CHR ''%'' # Sprintf fmt args
      else c # Sprintf (d # fmt) args)"

text \<open>Lines 338--343: the request body.\<close>

definition query_body :: "string \<Rightarrow> string \<Rightarrow> string" where
  \<open>query_body qb q =
     (if qb = ''text''
      then Sprintf ''{"query": { "match_phrase": { "search": "%s" } } }'' [q]
      else Sprintf ''{"query": { "match_phrase": { "label.keyword": "%s" } } }'' [q])\<close>

text \<open>\<^verbatim>\<open>esapi.SearchRequest\<close>, with the fields the method sets; \<^verbatim>\<open>Size\<close> and
  \<^verbatim>\<open>From\<close> are pointers to \<^verbatim>\<open>int\<close>, \<open>None\<close> when not set.\<close>

record SearchRequest =
  req_Index :: "string list"
  req_Body :: string
  req_Size :: "64 word option"
  req_From :: "64 word option"

text \<open>The pagination package: \<^verbatim>\<open>pg_opts.PerPage()\<close>,
  \<^verbatim>\<open>countable.PageFromOptions\<close> and
  \<^verbatim>\<open>countable.NewResultsFromCountWithOptions\<close>, over its own types of options
  \<open>'o\<close> and of results \<open>'p\<close>; all three work on \<^verbatim>\<open>int64\<close>.\<close>

record ('o, 'p) pagination =
  PerPage :: "'o \<Rightarrow> 64 word"
  PageFromOptions :: "'o \<Rightarrow> 64 word"
  NewResultsFromCountWithOptions :: "'o \<Rightarrow> 64 word \<Rightarrow> go_error + 'p"

text \<open>Lines 347--364: the request.  \<^verbatim>\<open>(pg - 1) * size\<close> is a product of Go
  \<^verbatim>\<open>int\<close>s and wraps around.\<close>

definition search_request ::
  "('o, 'p) pagination \<Rightarrow> 'c ElasticsearchV7Database \<Rightarrow> string \<Rightarrow> 'o \<Rightarrow> SearchRequest" where
  "search_request pgn db q pg_opts =
     (let size = PerPage pgn pg_opts;
          req = \<lparr> req_Index = [index db], req_Body = query_body (query_by db) q,
                  req_Size = Some size, req_From = None \<rparr>;
          pg = PageFromOptions pgn pg_opts
      in if 1 < sint pg then req \<lparr> req_From := Some ((pg - 1) * size) \<rparr> else req)"








text \<open>Concrete collaborators for running \<^verbatim>\<open>Query\<close>: page options are the pair of
  page size and page number, the pagination results are the pair of options and
  total count, and the backend answers every request with the same body, which
  decodes to the given response.\<close>

definition pair_pagination ::
  "(64 word \<times> 64 word, (64 word \<times> 64 word) \<times> 64 word) pagination" where
  "pair_pagination =
     \<lparr> PerPage = fst, PageFromOptions = snd,
       NewResultsFromCountWithOptions = (\<lambda>opts total. Inr (opts, total)) \<rparr>"


definition label_db :: "unit ElasticsearchV7Database" where
  "label_db = \<lparr> client = (), index = ''loc'', logger = Discard, workers = 10,
                query_by = ''label'' \<rparr>"


text \<open>A page request with page size 10 and page number 922337203685477582.\<close>

definition far_page :: "64 word \<times> 64 word" where
  "far_page = (10, 922337203685477582)"

subsection \<open>Ingestion\<close>

text \<open>A row is a Go \<^verbatim>\<open>map[string]string\<close>; indexing it with a key it does not have
  gives the empty string.\<close>

type_synonym row = "string \<rightharpoonup> string"

definition row_get :: "row \<Rightarrow> string \<Rightarrow> string" where
  "row_get row key = (case row key of None \<Rightarrow> [] | Some v \<Rightarrow> v)"

text \<open>The lines the two methods print, one constructor for each format string:
  \<^verbatim>\<open>"OPENSEARCH bulk indexer reported an error: %v\n"\<close>,
  \<^verbatim>\<open>"OPENSEARCH bulk indexer flush end"\<close>, \<^verbatim>\<open>"Stats %v\n"\<close>,
  \<^verbatim>\<open>"ERROR: Failed to index %s, %s"\<close>, \<^verbatim>\<open>"ERROR: Failed to index %s, %s: %s"\<close>
  and \<^verbatim>\<open>"Failed to schedule %s, %v"\<close>, each with its operands.\<close>

record BulkIndexerStats =
  NumAdded :: nat
  NumFlushed :: nat
  NumFailed :: nat
  NumIndexed :: nat
  NumCreated :: nat
  NumUpdated :: nat
  NumDeleted :: nat
  NumRequests :: nat

datatype log_line =
    BulkIndexerReportedError go_error
  | FlushEndLine
  | StatsLine BulkIndexerStats
  | FailedToIndexLine string go_error
  | FailedToIndexReasonLine string string string
  | FailedToScheduleLine string go_error

text \<open>What a run leaves outside the process: the lines on standard output (where
  the handle's logger writes unless it discards), the lines of the standard
  logger of package \<^verbatim>\<open>log\<close>, and the number of \<^verbatim>\<open>monitor.Signal\<close> calls that
  were started.\<close>

record outputs =
  stdout_lines :: "log_line list"
  stderr_lines :: "log_line list"
  signals :: nat

definition logger_Printf :: "log_writer \<Rightarrow> log_line \<Rightarrow> outputs \<Rightarrow> outputs" where
  "logger_Printf lw line out =
     (case lw of Discard \<Rightarrow> out | Stdout \<Rightarrow> out \<lparr> stdout_lines := stdout_lines out @ [line] \<rparr>)"

definition log_Printf :: "log_line \<Rightarrow> outputs \<Rightarrow> outputs" where
  "log_Printf line out = out \<lparr> stderr_lines := stderr_lines out @ [line] \<rparr>"

definition monitor_Signal :: "outputs \<Rightarrow> outputs" where
  "monitor_Signal out = out \<lparr> signals := Suc (signals out) \<rparr>"

text \<open>\<^verbatim>\<open>esutil.BulkIndexerResponseItem\<close> (the two fields read by the failure
  callback), \<^verbatim>\<open>esutil.BulkIndexerItem\<close> and \<^verbatim>\<open>esutil.BulkIndexerConfig\<close>; the
  callbacks are the closures of the source, as functions on the outputs.\<close>

record BulkIndexerResponseItem =
  Error_Type :: string
  Error_Reason :: string

record BulkIndexerItem =
  Action :: string
  DocumentID :: string
  Body :: string
  OnSuccess :: "BulkIndexerResponseItem \<Rightarrow> outputs \<Rightarrow> outputs"
  OnFailure :: "BulkIndexerResponseItem \<Rightarrow> go_error option \<Rightarrow> outputs \<Rightarrow> outputs"

record 'c BulkIndexerConfig =
  cfg_Index :: string
  cfg_Client :: 'c
  NumWorkers :: int
  FlushInterval_seconds :: nat
  OnError :: "go_error \<Rightarrow> outputs \<Rightarrow> outputs"
  OnFlushEnd :: "outputs \<Rightarrow> outputs"

text \<open>The bulk indexer of package \<^verbatim>\<open>esutil\<close> is a parameter: a state \<open>'bi\<close> with
  the four operations the source calls.  It runs the callbacks on its own
  goroutines; in the model \<^verbatim>\<open>Add\<close> and \<^verbatim>\<open>Close\<close> report, besides their error,
  the outcomes that became known, and the callbacks of these are run in the order
  reported.  \<^verbatim>\<open>json.Marshal\<close> on the document is a parameter as well.\<close>

datatype bi_event =
    ItemSucceeded BulkIndexerItem BulkIndexerResponseItem
  | ItemFailed BulkIndexerItem BulkIndexerResponseItem "go_error option"
  | Errored go_error
  | FlushEnded

record ('c, 'bi) ingest_ops =
  NewBulkIndexer :: "'c BulkIndexerConfig \<Rightarrow> go_error + 'bi"
  bi_Add :: "'bi \<Rightarrow> BulkIndexerItem \<Rightarrow> go_error option \<times> bi_event list \<times> 'bi"
  bi_Close :: "'bi \<Rightarrow> go_error option \<times> bi_event list \<times> 'bi"
  bi_Stats :: "'bi \<Rightarrow> BulkIndexerStats"
  json_Marshal :: "(string \<rightharpoonup> string) \<Rightarrow> go_error + string"

fun run_callbacks :: "'c BulkIndexerConfig \<Rightarrow> bi_event list \<Rightarrow> outputs \<Rightarrow> outputs" where
  "run_callbacks cfg [] out = out"
| "run_callbacks cfg (ItemSucceeded item res # evs) out =
     run_callbacks cfg evs (OnSuccess item res out)"
| "run_callbacks cfg (ItemFailed item res err # evs) out =
     run_callbacks cfg evs (OnFailure item res err out)"
| "run_callbacks cfg (Errored err # evs) out = run_callbacks cfg evs (OnError cfg err out)"
| "run_callbacks cfg (FlushEnded # evs) out = run_callbacks cfg evs (OnFlushEnd cfg out)"

text \<open>Modelled from the spec: the type \<^verbatim>\<open>database.Source\<close> and its method
  \<^verbatim>\<open>Index\<close> belong to the parent package: a source has a label and "push[es]
  rows to a callback until exhausted, returning an error if iteration itself
  fails".  A source is its label and what it will produce; an error of the
  callback ends the iteration and is returned.\<close>

datatype feed_step = Row row | IterationFails go_error

record Source =
  Label :: string
  feed :: "feed_step list"

datatype row_error = FailedToMarshal string go_error

datatype source_error = IterationFailed go_error | CallbackFailed row_error

fun Source_Index ::
  "feed_step list \<Rightarrow> (row \<Rightarrow> 's \<Rightarrow> row_error option \<times> 's) \<Rightarrow> 's \<Rightarrow> source_error option \<times> 's" where
  "Source_Index [] cb s = (None, s)"
| "Source_Index (Row r # rest) cb s =
     (case cb r s of
        (Some err, s') \<Rightarrow> (Some (CallbackFailed err), s')
      | (None, s') \<Rightarrow> Source_Index rest cb s')"
| "Source_Index (IterationFails err # rest) cb s = (Some (IterationFailed err), s)"

text \<open>Lines 285--289 and 302--318: the document and the bulk item of a row.\<close>

definition document :: "Source \<Rightarrow> row \<Rightarrow> (string \<rightharpoonup> string)" where
  "document src row =
     [''id'' \<mapsto> row_get row ''id'', ''label'' \<mapsto> row_get row ''label'',
      ''source'' \<mapsto> Label src]"

definition bulk_item :: "string \<Rightarrow> string \<Rightarrow> BulkIndexerItem" where
  "bulk_item doc_id enc_doc =
     \<lparr> Action = ''index'',
       DocumentID = doc_id,
       Body = enc_doc,
       OnSuccess = (\<lambda>res out. out),
       OnFailure = (\<lambda>res err out.
         case err of
           Some e \<Rightarrow> log_Printf (FailedToIndexLine doc_id e) out
         | None \<Rightarrow> log_Printf (FailedToIndexReasonLine doc_id (Error_Type res) (Error_Reason res))
                     out) \<rparr>"

text \<open>Lines 283--329: the row callback \<^verbatim>\<open>cb\<close> of \<^verbatim>\<open>indexSource\<close>, on the pair of
  the outputs and the indexer.\<close>

definition cb ::
  "('c, 'bi) ingest_ops \<Rightarrow> 'c BulkIndexerConfig \<Rightarrow> Source \<Rightarrow> row \<Rightarrow> outputs \<times> 'bi
     \<Rightarrow> row_error option \<times> (outputs \<times> 'bi)" where
  "cb ops cfg src row s =
     (let doc = document src row;
          doc_id = row_get row ''id''
      in case json_Marshal ops doc of
           Inl err \<Rightarrow> (Some (FailedToMarshal doc_id err), s)
         | Inr enc_doc \<Rightarrow>
             (case bi_Add ops (snd s) (bulk_item doc_id enc_doc) of
                (err, evs, indexer') \<Rightarrow>
                  let out = run_callbacks cfg evs (fst s)
                  in (case err of
                        Some e \<Rightarrow> (None, (log_Printf (FailedToScheduleLine doc_id e) out, indexer'))
                      | None \<Rightarrow> (None, (monitor_Signal out, indexer')))))"

definition indexSource ::
  "('c, 'bi) ingest_ops \<Rightarrow> 'c BulkIndexerConfig \<Rightarrow> Source \<Rightarrow> outputs \<times> 'bi
     \<Rightarrow> source_error option \<times> (outputs \<times> 'bi)" where
  "indexSource ops cfg src s = Source_Index (feed src) (cb ops cfg src) s"

datatype index_error =
    FailedToCreateBulkIndexer go_error
  | FailedToIndex string source_error
  | FailedToCloseIndexer go_error

text \<open>Lines 260--267: the loop over the sources.\<close>

fun index_sources ::
  "('c, 'bi) ingest_ops \<Rightarrow> 'c BulkIndexerConfig \<Rightarrow> Source list \<Rightarrow> outputs \<times> 'bi
     \<Rightarrow> index_error option \<times> (outputs \<times> 'bi)" where
  "index_sources ops cfg [] s = (None, s)"
| "index_sources ops cfg (src # sources) s =
     (case indexSource ops cfg src s of
        (Some err, s') \<Rightarrow> (Some (FailedToIndex (Label src) err), s')
      | (None, s') \<Rightarrow> index_sources ops cfg sources s')"

text \<open>Lines 240--252: the configuration of the bulk indexer.\<close>

definition bi_cfg :: "'c ElasticsearchV7Database \<Rightarrow> 'c BulkIndexerConfig" where
  "bi_cfg db =
     \<lparr> cfg_Index = index db,
       cfg_Client = client db,
       NumWorkers = workers db,
       FlushInterval_seconds = 30,
       OnError = (\<lambda>err. logger_Printf (logger db) (BulkIndexerReportedError err)),
       OnFlushEnd = logger_Printf (logger db) FlushEndLine \<rparr>"

definition Index ::
  "('c, 'bi) ingest_ops \<Rightarrow> 'c ElasticsearchV7Database \<Rightarrow> Source list \<Rightarrow> outputs
     \<Rightarrow> index_error option \<times> outputs" where
  "Index ops db sources out =
     (case NewBulkIndexer ops (bi_cfg db) of
        Inl err \<Rightarrow> (Some (FailedToCreateBulkIndexer err), out)
      | Inr indexer \<Rightarrow>
          (case index_sources ops (bi_cfg db) sources (out, indexer) of
             (Some err, s) \<Rightarrow> (Some err, fst s)
           | (None, s) \<Rightarrow>
               (case bi_Close ops (snd s) of
                  (err, evs, indexer') \<Rightarrow>
                    let out' = run_callbacks (bi_cfg db) evs (fst s)
                    in (case err of
                          Some e \<Rightarrow> (Some (FailedToCloseIndexer e), out')
                        | None \<Rightarrow>
                            (None, logger_Printf (logger db) (StatsLine (bi_Stats ops indexer'))
                                     out')))))"

text \<open>A scripted bulk indexer for running the ingestion on concrete rows: it
  rejects the documents \<open>reject\<close> names, accepts and keeps the others, and at
  \<^verbatim>\<open>Close\<close> either fails with \<open>close_err\<close> or reports the outcome \<open>oc\<close> gives for
  every kept document and the end of the flush.  Its encoder writes the three
  fields of a document as \<^verbatim>\<open>json.Marshal\<close> does for values that need no
  escaping.\<close>

datatype outcome = Indexed | TransportError go_error | Rejected string string

definition outcome_event :: "(string \<Rightarrow> outcome) \<Rightarrow> BulkIndexerItem \<Rightarrow> bi_event" where
  "outcome_event oc item =
     (case oc (DocumentID item) of
        Indexed \<Rightarrow> ItemSucceeded item \<lparr> Error_Type = [], Error_Reason = [] \<rparr>
      | TransportError e \<Rightarrow> ItemFailed item \<lparr> Error_Type = [], Error_Reason = [] \<rparr> (Some e)
      | Rejected t r \<Rightarrow> ItemFailed item \<lparr> Error_Type = t, Error_Reason = r \<rparr> None)"

definition plain_Marshal :: "(string \<rightharpoonup> string) \<Rightarrow> go_error + string" where
  \<open>plain_Marshal doc =
     Inr (''{"id":"'' @ row_get doc ''id'' @ ''","label":"'' @ row_get doc ''label''
          @ ''","source":"'' @ row_get doc ''source'' @ ''"}'')\<close>

definition scripted_indexer ::
  "(string \<Rightarrow> go_error option) \<Rightarrow> (string \<Rightarrow> outcome) \<Rightarrow> go_error option
     \<Rightarrow> ('c, BulkIndexerItem list) ingest_ops" where
  "scripted_indexer reject oc close_err =
     \<lparr> NewBulkIndexer = (\<lambda>cfg. Inr []),
       bi_Add = (\<lambda>kept item.
         case reject (DocumentID item) of
           Some e \<Rightarrow> (Some e, [], kept)
         | None \<Rightarrow> (None, [], kept @ [item])),
       bi_Close = (\<lambda>kept.
         case close_err of
           Some e \<Rightarrow> (Some e, [], kept)
         | None \<Rightarrow> (None, map (outcome_event oc) kept @ [FlushEnded], kept)),
       bi_Stats = (\<lambda>kept.
         \<lparr> NumAdded = length kept, NumFlushed = length kept,
           NumFailed = length (filter (\<lambda>item. oc (DocumentID item) \<noteq> Indexed) kept),
           NumIndexed = length (filter (\<lambda>item. oc (DocumentID item) = Indexed) kept),
           NumCreated = 0, NumUpdated = 0, NumDeleted = 0, NumRequests = 1 \<rparr>),
       json_Marshal = plain_Marshal \<rparr>"

definition accept_all :: "string \<Rightarrow> go_error option" where
  "accept_all doc_id = None"

definition reject_n2 :: "string \<Rightarrow> go_error option" where
  "reject_n2 doc_id = (if doc_id = ''n2'' then Some ''context canceled'' else None)"

definition all_indexed :: "string \<Rightarrow> outcome" where
  "all_indexed doc_id = Indexed"

definition n1_rejected :: "string \<Rightarrow> outcome" where
  "n1_rejected doc_id =
     (if doc_id = ''n1'' then Rejected ''mapper_parsing_exception'' ''failed to parse''
      else if doc_id = ''n3'' then TransportError ''unexpected EOF''
      else Indexed)"

definition row_n1 :: row where
  "row_n1 = [''id'' \<mapsto> ''n1'', ''label'' \<mapsto> ''Maps'']"

definition row_n1_again :: row where
  "row_n1_again = [''id'' \<mapsto> ''n1'', ''label'' \<mapsto> ''Atlases'']"

definition row_n2 :: row where
  "row_n2 = [''id'' \<mapsto> ''n2'', ''label'' \<mapsto> ''Charts'']"

definition row_n3 :: row where
  "row_n3 = [''id'' \<mapsto> ''n3'', ''label'' \<mapsto> ''Globes'']"

definition lcsh :: Source where
  "lcsh = \<lparr> Label = ''lcsh'', feed = [Row row_n1, Row row_n2, Row row_n3] \<rparr>"

definition lcnaf :: Source where
  "lcnaf = \<lparr> Label = ''lcnaf'', feed = [Row row_n1, Row row_n1_again] \<rparr>"

definition stdout_db :: "unit ElasticsearchV7Database" where
  "stdout_db = \<lparr> client = (), index = ''loc'', logger = Stdout, workers = 10,
                 query_by = ''label'' \<rparr>"

definition no_outputs :: outputs where
  "no_outputs = \<lparr> stdout_lines = [], stderr_lines = [], signals = 0 \<rparr>"

text \<open>Three scripts: every document accepted and indexed; the second document
  refused by \<^verbatim>\<open>Add\<close>, the first rejected by the backend and the third lost to a
  transport error; every document accepted and \<^verbatim>\<open>Close\<close> failing.\<close>

definition steady_indexer :: "(unit, BulkIndexerItem list) ingest_ops" where
  "steady_indexer = scripted_indexer accept_all all_indexed None"

definition failing_documents_indexer :: "(unit, BulkIndexerItem list) ingest_ops" where
  "failing_documents_indexer = scripted_indexer reject_n2 n1_rejected None"

definition failing_close_indexer :: "(unit, BulkIndexerItem list) ingest_ops" where
  "failing_close_indexer = scripted_indexer accept_all all_indexed (Some ''context canceled'')"

text \<open>Two observations on a run: the statistics printed on standard output, and
  whether a reported outcome is about an item that the row callback built.\<close>

fun printed_stats :: "log_line list \<Rightarrow> BulkIndexerStats list" where
  "printed_stats [] = []"
| "printed_stats (StatsLine st # ls) = st # printed_stats ls"
| "printed_stats (_ # ls) = printed_stats ls"

fun about_row_item :: "bi_event \<Rightarrow> bool" where
  "about_row_item (ItemSucceeded item res) = (item = bulk_item (DocumentID item) (Body item))"
| "about_row_item (ItemFailed item res err) = (item = bulk_item (DocumentID item) (Body item))"
| "about_row_item (Errored err) = True"
| "about_row_item FlushEnded = True"

subsection \<open>The backend's index action\<close>










section \<open>Properties\<close>

subsection \<open>The constructor\<close>

lemma digits_value_all: "digits_value s n = Some m \<Longrightarrow> list_all is_digit s"
  by (induction s arbitrary: n) (auto split: if_splits)

lemma digits_value_nonneg: "digits_value s n = Some m \<Longrightarrow> 0 \<le> n \<Longrightarrow> 0 \<le> m"
proof (induction s arbitrary: n)
  case Nil
  then show ?case by simp
next
  case (Cons ch s)
  from Cons.prems have d: "is_digit ch"
    and r: "digits_value s (n * 10 + (of_char ch - 48)) = Some m"
    by (auto split: if_splits)
  from d Cons.prems(2) have "0 \<le> n * 10 + (of_char ch - 48)"
    by (simp add: is_digit_def)
  with Cons.IH r show ?case by blast
qed

lemma Atoi_not_decimal: "\<not> decimal_integer s \<Longrightarrow> \<exists>e. Atoi s = Inl e"
  by (auto simp: Atoi_def decimal_integer_def Let_def dest: digits_value_all
      split: option.splits)

lemma Atoi_range:
  assumes "Atoi s = Inr n"
  shows "- (2 ^ 63) \<le> n \<and> n < 2 ^ 63"
proof -
  obtain m where m: "digits_value (if has_sign s then tl s else s) 0 = Some m"
    and n: "n = (if is_negative s then - m else m)"
    and b: "if is_negative s then \<not> 2 ^ 63 < m else \<not> 2 ^ 63 \<le> m"
    using assms by (auto simp: Atoi_def Let_def split: option.splits if_splits)
  from m have "0 \<le> m" by (rule digits_value_nonneg) simp
  with n b show ?thesis by (auto split: if_splits)
qed

text \<open>What a returned handle says about the run of the constructor.\<close>

lemma New_Inr:
  assumes "NewElasticsearchV7Database pf uri = Inr db"
  shows "\<exists>q w debug lg ci qb.
           url_Parse pf uri = Inr q \<and>
           parse_workers (Get q ''workers'') = Inr w \<and>
           parse_debug (Get q ''debug'') = Inr (debug, lg) \<and>
           parse_create_index (Get q ''create-index'') = Inr ci \<and>
           parse_query_by (Get q ''query-by'') = Some qb \<and>
           es_NewClient pf (es_cfg (Get q ''endpoint'') debug) = Inr (client db) \<and>
           index db = Get q ''index'' \<and> logger db = lg \<and> workers db = w \<and> query_by db = qb"
  using assms unfolding NewElasticsearchV7Database_def
  by (auto split: sum.splits option.splits prod.splits)

lemma New_invalid_query_by:
  assumes "url_Parse pf uri = Inr q" and "parse_query_by (Get q ''query-by'') = None"
  shows "\<exists>e. NewElasticsearchV7Database pf uri = Inl e \<and> is_configuration_error e"
  using assms unfolding NewElasticsearchV7Database_def
  by (auto split: sum.splits option.splits prod.splits)

lemma New_invalid_workers:
  assumes "url_Parse pf uri = Inr q" and "parse_workers (Get q ''workers'') = Inl err"
  shows "NewElasticsearchV7Database pf uri = Inl (FailedParseWorkers err)"
  using assms unfolding NewElasticsearchV7Database_def by simp

lemmas New_eval = NewElasticsearchV7Database_def fixed_platform_def Get_def parse_workers_def
  parse_debug_def parse_create_index_def parse_query_by_def

text \<open>
  C1 (as amended).  For a descriptor whose query values are \<open>q\<close>: a handle that the
  constructor returns has the query-field mode \<^verbatim>\<open>label\<close> when \<^verbatim>\<open>query-by\<close> is
  omitted or empty (\<^verbatim>\<open>Get\<close> returns the empty string in both cases), and the
  supplied value otherwise; and a non-empty \<^verbatim>\<open>query-by\<close> value outside
  \<^verbatim>\<open>text\<close>, \<^verbatim>\<open>label\<close> makes construction fail with a configuration error, so
  that no handle is returned.
\<close>

theorem query_by_mode:
  assumes "url_Parse pf uri = Inr q"
  shows "(NewElasticsearchV7Database pf uri = Inr db \<longrightarrow>
            query_by db = (if Get q ''query-by'' = [] then ''label'' else Get q ''query-by''))
       \<and> (Get q ''query-by'' \<noteq> [] \<and> Get q ''query-by'' \<notin> {''text'', ''label''} \<longrightarrow>
            (\<exists>e. NewElasticsearchV7Database pf uri = Inl e \<and> is_configuration_error e))"
proof (intro conjI impI)
  assume "NewElasticsearchV7Database pf uri = Inr db"
  from New_Inr [OF this] assms
  have "parse_query_by (Get q ''query-by'') = Some (query_by db)" by auto
  then show "query_by db = (if Get q ''query-by'' = [] then ''label'' else Get q ''query-by'')"
    by (auto simp: parse_query_by_def split: if_splits)
next
  assume "Get q ''query-by'' \<noteq> [] \<and> Get q ''query-by'' \<notin> {''text'', ''label''}"
  then have "parse_query_by (Get q ''query-by'') = None"
    by (simp add: parse_query_by_def)
  with assms show "\<exists>e. NewElasticsearchV7Database pf uri = Inl e \<and> is_configuration_error e"
    by (rule New_invalid_query_by)
qed

theorem query_by_mode_witness:
  "NewElasticsearchV7Database (fixed_platform query_by_text) ''elasticsearchv7://?query-by=text''
     = Inr \<lparr> client = es_cfg [] False, index = [], logger = Discard, workers = 10,
             query_by = ''text'' \<rparr>
   \<and> query_by \<lparr> client = es_cfg [] False, index = [], logger = Discard, workers = 10,
                query_by = ''text'' \<rparr>
       = Get query_by_text ''query-by''
   \<and> Get query_by_title ''query-by'' = ''title''
   \<and> (\<exists>e. NewElasticsearchV7Database (fixed_platform query_by_title)
             ''elasticsearchv7://?query-by=title'' = Inl e \<and> is_configuration_error e)"
proof -
  have p1: "url_Parse (fixed_platform query_by_text) ''elasticsearchv7://?query-by=text''
              = Inr query_by_text"
    by (simp add: fixed_platform_def)
  have p3: "url_Parse (fixed_platform query_by_title) ''elasticsearchv7://?query-by=title''
              = Inr query_by_title"
    by (simp add: fixed_platform_def)
  have g1: "Get query_by_text ''query-by'' = ''text''"
    by (simp add: Get_def query_by_text_def)
  have g3: "Get query_by_title ''query-by'' = ''title''"
    by (simp add: Get_def query_by_title_def)
  have r1: "NewElasticsearchV7Database (fixed_platform query_by_text)
              ''elasticsearchv7://?query-by=text''
     = Inr \<lparr> client = es_cfg [] False, index = [], logger = Discard, workers = 10,
             query_by = ''text'' \<rparr>"
    by (simp add: New_eval query_by_text_def)
  show ?thesis
    using query_by_mode [OF p1, THEN conjunct1, rule_format, OF r1]
      query_by_mode [OF p3, THEN conjunct2] r1 g1 g3
    by simp
qed

text \<open>
  C1 as stated fails on the descriptor \<^verbatim>\<open>elasticsearchv7://?query-by=\<close>: the
  supplied value is the empty string, which is outside \<^verbatim>\<open>text\<close>, \<^verbatim>\<open>label\<close>,
  and the constructor returns a handle, in mode \<^verbatim>\<open>label\<close>.
\<close>

theorem query_by_empty_value_accepted:
  "Get query_by_empty ''query-by'' \<notin> {''text'', ''label''}
   \<and> NewElasticsearchV7Database (fixed_platform query_by_empty) ''elasticsearchv7://?query-by=''
     = Inr \<lparr> client = es_cfg [] False, index = [], logger = Discard, workers = 10,
             query_by = ''label'' \<rparr>"
  by (simp add: New_eval query_by_empty_def)

text \<open>The handle's logger depends on the presence of \<^verbatim>\<open>debug\<close> alone.\<close>

lemma New_logger:
  assumes "url_Parse pf uri = Inr q" and "NewElasticsearchV7Database pf uri = Inr db"
  shows "logger db = (if Get q ''debug'' = [] then Discard else Stdout)"
proof -
  from New_Inr [OF assms(2)] assms(1)
  obtain debug where "parse_debug (Get q ''debug'') = Inr (debug, logger db)" by auto
  then show ?thesis
    by (auto simp: parse_debug_def split: if_splits sum.splits)
qed

text \<open>
  C2 (the code at the failing input).  On \<^verbatim>\<open>elasticsearchv7://?debug=false\<close> the
  option evaluates to false and no request/response logger is attached to the
  client, yet the handle's logger writes to standard output: line 87 replaces the
  logger whenever \<^verbatim>\<open>debug\<close> is present, whatever its value.
\<close>

theorem debug_false_logs_to_stdout:
  "ParseBool (Get debug_false ''debug'') = Inr False
   \<and> NewElasticsearchV7Database (fixed_platform debug_false) ''elasticsearchv7://?debug=false''
     = Inr \<lparr> client = es_cfg [] False, index = [], logger = Stdout, workers = 10,
             query_by = ''label'' \<rparr>
   \<and> Logger (es_cfg [] False) = None"
  by (simp add: New_eval debug_false_def ParseBool_def es_cfg_def)

text \<open>
  C3 (as amended).  For a descriptor whose query values are \<open>q\<close>: a returned handle
  has worker concurrency 10 when \<^verbatim>\<open>workers\<close> is omitted or empty; a non-empty
  \<^verbatim>\<open>workers\<close> value that is not an optionally signed string of decimal digits
  makes construction fail with the configuration error about workers; and the
  worker concurrency of a handle returned for a non-empty \<^verbatim>\<open>workers\<close> value is
  the integer \<^verbatim>\<open>strconv.Atoi\<close> reads from it, a 64-bit signed integer that may be
  zero or negative.
\<close>

theorem workers_option:
  assumes "url_Parse pf uri = Inr q"
  shows "(Get q ''workers'' = [] \<and> NewElasticsearchV7Database pf uri = Inr db \<longrightarrow>
            workers db = 10)
       \<and> (Get q ''workers'' \<noteq> [] \<and> \<not> decimal_integer (Get q ''workers'') \<longrightarrow>
            (\<exists>e. NewElasticsearchV7Database pf uri = Inl e \<and> is_configuration_error e
                 \<and> (\<exists>err. e = FailedParseWorkers err)))
       \<and> (Get q ''workers'' \<noteq> [] \<and> NewElasticsearchV7Database pf uri = Inr db \<longrightarrow>
            Atoi (Get q ''workers'') = Inr (workers db)
            \<and> - (2 ^ 63) \<le> workers db \<and> workers db < 2 ^ 63)"
proof -
  have part1: "workers db = 10"
    if a: "Get q ''workers'' = [] \<and> NewElasticsearchV7Database pf uri = Inr db"
  proof -
    from New_Inr [OF a [THEN conjunct2]] assms
    have "parse_workers (Get q ''workers'') = Inr (workers db)" by auto
    with a show ?thesis by (simp add: parse_workers_def)
  qed
  have part2: "\<exists>e. NewElasticsearchV7Database pf uri = Inl e \<and> is_configuration_error e
                   \<and> (\<exists>err. e = FailedParseWorkers err)"
    if a: "Get q ''workers'' \<noteq> [] \<and> \<not> decimal_integer (Get q ''workers'')"
  proof -
    from a obtain err where "Atoi (Get q ''workers'') = Inl err"
      using Atoi_not_decimal by blast
    with a have "parse_workers (Get q ''workers'') = Inl err"
      by (simp add: parse_workers_def)
    from New_invalid_workers [OF assms this] show ?thesis by simp
  qed
  have part3: "Atoi (Get q ''workers'') = Inr (workers db)
               \<and> - (2 ^ 63) \<le> workers db \<and> workers db < 2 ^ 63"
    if a: "Get q ''workers'' \<noteq> [] \<and> NewElasticsearchV7Database pf uri = Inr db"
  proof -
    from New_Inr [OF a [THEN conjunct2]] assms
    have "parse_workers (Get q ''workers'') = Inr (workers db)" by auto
    with a have *: "Atoi (Get q ''workers'') = Inr (workers db)"
      by (simp add: parse_workers_def)
    from * Atoi_range [OF *] show ?thesis by simp
  qed
  from part1 part2 part3 show ?thesis by blast
qed

theorem workers_option_witness:
  "NewElasticsearchV7Database (fixed_platform no_options) ''elasticsearchv7://''
     = Inr \<lparr> client = es_cfg [] False, index = [], logger = Discard, workers = 10,
             query_by = ''label'' \<rparr>
   \<and> \<not> decimal_integer (Get workers_many ''workers'')
   \<and> (\<exists>e. NewElasticsearchV7Database (fixed_platform workers_many)
             ''elasticsearchv7://?workers=many'' = Inl e \<and> is_configuration_error e)
   \<and> NewElasticsearchV7Database (fixed_platform workers_four) ''elasticsearchv7://?workers=4''
     = Inr \<lparr> client = es_cfg [] False, index = [], logger = Discard, workers = 4,
             query_by = ''label'' \<rparr>
   \<and> Atoi (Get workers_four ''workers'') = Inr 4"
proof -
  have p0: "url_Parse (fixed_platform no_options) ''elasticsearchv7://'' = Inr no_options"
    by (simp add: fixed_platform_def)
  have p1: "url_Parse (fixed_platform workers_many) ''elasticsearchv7://?workers=many''
              = Inr workers_many"
    by (simp add: fixed_platform_def)
  have p2: "url_Parse (fixed_platform workers_four) ''elasticsearchv7://?workers=4''
              = Inr workers_four"
    by (simp add: fixed_platform_def)
  have g0: "Get no_options ''workers'' = []"
    by (simp add: Get_def no_options_def)
  have g1: "Get workers_many ''workers'' = ''many''"
    by (simp add: Get_def workers_many_def)
  have g2: "Get workers_four ''workers'' = ''4''"
    by (simp add: Get_def workers_four_def)
  have d1: "\<not> decimal_integer ''many''"
    by (simp add: decimal_integer_def has_sign_def is_digit_def)
  have r0: "NewElasticsearchV7Database (fixed_platform no_options) ''elasticsearchv7://''
     = Inr \<lparr> client = es_cfg [] False, index = [], logger = Discard, workers = 10,
             query_by = ''label'' \<rparr>"
    by (simp add: New_eval no_options_def)
  have r2: "NewElasticsearchV7Database (fixed_platform workers_four)
              ''elasticsearchv7://?workers=4''
     = Inr \<lparr> client = es_cfg [] False, index = [], logger = Discard, workers = 4,
             query_by = ''label'' \<rparr>"
    by (simp add: New_eval workers_four_def Atoi_def has_sign_def is_negative_def is_digit_def)
  show ?thesis
    using workers_option [OF p0, THEN conjunct1, rule_format, OF conjI [OF g0 r0]]
      workers_option [OF p1, THEN conjunct2, THEN conjunct1]
      workers_option [OF p2, THEN conjunct2, THEN conjunct2, rule_format, OF conjI [OF _ r2]]
      r0 r2 g1 g2 d1
    by auto
qed

text \<open>
  C3 as stated fails on the descriptor \<^verbatim>\<open>elasticsearchv7://?workers=0\<close>: the
  constructor returns a handle whose worker concurrency is 0, which is not
  positive.
\<close>

theorem workers_zero_accepted:
  "NewElasticsearchV7Database (fixed_platform workers_zero) ''elasticsearchv7://?workers=0''
     = Inr \<lparr> client = es_cfg [] False, index = [], logger = Discard, workers = 0,
             query_by = ''label'' \<rparr>
   \<and> \<not> 0 < workers \<lparr> client = es_cfg [] False, index = [], logger = Discard, workers = 0,
                      query_by = ''label'' \<rparr>"
  by (simp add: New_eval workers_zero_def Atoi_def has_sign_def is_negative_def is_digit_def)

subsection \<open>The retry configuration\<close>

text \<open>What the constructor writes into the client's configuration: the four
  status codes, five as the number of retries, and a backoff function that resets
  the backoff object exactly when it is called for attempt 1.  How the client
  counts its attempts and what delays the backoff object produces is decided in
  the packages \<^verbatim>\<open>estransport\<close> and \<^verbatim>\<open>backoff\<close>.\<close>

lemma es_cfg_retry:
  "set (RetryOnStatus (es_cfg es_endpoint debug)) = {503, 502, 504, 429}"
  "MaxRetries (es_cfg es_endpoint debug) = 5"
  by (auto simp: es_cfg_def)

lemma RetryBackoff_first: "RetryBackoff bo 1 retry = NextBackOff bo (Reset bo retry)"
  by (simp add: RetryBackoff_def)

lemma RetryBackoff_later: "i \<noteq> 1 \<Longrightarrow> RetryBackoff bo i retry = NextBackOff bo retry"
  by (simp add: RetryBackoff_def)

subsection \<open>Query: the request\<close>

lemma req_Size_search_request:
  "req_Size (search_request pgn db q pg_opts) = Some (PerPage pgn pg_opts)"
  by (simp add: search_request_def Let_def)

lemma req_From_search_request:
  "req_From (search_request pgn db q pg_opts) =
     (if 1 < sint (PageFromOptions pgn pg_opts)
      then Some ((PageFromOptions pgn pg_opts - 1) * PerPage pgn pg_opts) else None)"
  by (simp add: search_request_def Let_def)

lemma req_Body_search_request:
  "req_Body (search_request pgn db q pg_opts) = query_body (query_by db) q"
  by (simp add: search_request_def Let_def)

lemma sint_pred:
  fixes N :: "64 word"
  assumes "1 < sint N"
  shows "sint (N - 1) = sint N - 1"
proof -
  have "sint N < 2 ^ 63" using sint_lt [of N] by simp
  with assms have "- (2 ^ 63) \<le> sint N - 1" "sint N - 1 < 2 ^ 63" by simp_all
  then have "signed_take_bit 63 (sint N - 1) = sint N - 1"
    by (simp add: signed_take_bit_int_eq_self)
  then show ?thesis by (simp add: sint_word_ariths)
qed

lemma sint_offset:
  fixes N S :: "64 word"
  assumes "1 < sint N"
  shows "sint ((N - 1) * S) = signed_take_bit 63 ((sint N - 1) * sint S)"
  using sint_pred [OF assms] by (simp add: sint_word_ariths)

lemma sint_offset_exact:
  fixes N S :: "64 word"
  assumes "1 < sint N"
    and "- (2 ^ 63) \<le> (sint N - 1) * sint S" and "(sint N - 1) * sint S < 2 ^ 63"
  shows "sint ((N - 1) * S) = (sint N - 1) * sint S"
  using sint_offset [OF assms(1)] assms(2,3) by (simp add: signed_take_bit_int_eq_self)

text \<open>
  C8 (as amended).  For every page request, with \<open>S\<close> the page size and \<open>N\<close> the
  page number (both 64-bit signed): the request's size limit is \<open>S\<close>; no skip
  offset is attached when \<open>N\<close> is 1 (or less); when \<open>N > 1\<close> the attached offset is
  \<open>(N - 1) * S\<close> in Go's wrapping 64-bit arithmetic, which is exactly
  \<open>(N - 1) * S\<close> whenever that product fits a 64-bit signed integer.
\<close>

theorem page_offset:
  "req_Size (search_request pgn db q pg_opts) = Some (PerPage pgn pg_opts)
   \<and> (sint (PageFromOptions pgn pg_opts) \<le> 1 \<longrightarrow>
        req_From (search_request pgn db q pg_opts) = None)
   \<and> (1 < sint (PageFromOptions pgn pg_opts) \<longrightarrow>
        (\<exists>from. req_From (search_request pgn db q pg_opts) = Some from
           \<and> sint from = signed_take_bit 63
                 ((sint (PageFromOptions pgn pg_opts) - 1) * sint (PerPage pgn pg_opts))))
   \<and> (1 < sint (PageFromOptions pgn pg_opts)
        \<and> - (2 ^ 63) \<le> (sint (PageFromOptions pgn pg_opts) - 1) * sint (PerPage pgn pg_opts)
        \<and> (sint (PageFromOptions pgn pg_opts) - 1) * sint (PerPage pgn pg_opts) < 2 ^ 63 \<longrightarrow>
        (\<exists>from. req_From (search_request pgn db q pg_opts) = Some from
           \<and> sint from = (sint (PageFromOptions pgn pg_opts) - 1) * sint (PerPage pgn pg_opts)))"
proof (intro conjI impI)
  show "req_Size (search_request pgn db q pg_opts) = Some (PerPage pgn pg_opts)"
    by (rule req_Size_search_request)
next
  assume "sint (PageFromOptions pgn pg_opts) \<le> 1"
  then show "req_From (search_request pgn db q pg_opts) = None"
    by (simp add: req_From_search_request)
next
  assume a: "1 < sint (PageFromOptions pgn pg_opts)"
  then have "req_From (search_request pgn db q pg_opts)
               = Some ((PageFromOptions pgn pg_opts - 1) * PerPage pgn pg_opts)"
    by (simp add: req_From_search_request)
  with sint_offset [OF a, of "PerPage pgn pg_opts"]
  show "\<exists>from. req_From (search_request pgn db q pg_opts) = Some from
           \<and> sint from = signed_take_bit 63
                 ((sint (PageFromOptions pgn pg_opts) - 1) * sint (PerPage pgn pg_opts))"
    by simp
next
  assume a: "1 < sint (PageFromOptions pgn pg_opts)
        \<and> - (2 ^ 63) \<le> (sint (PageFromOptions pgn pg_opts) - 1) * sint (PerPage pgn pg_opts)
        \<and> (sint (PageFromOptions pgn pg_opts) - 1) * sint (PerPage pgn pg_opts) < 2 ^ 63"
  then have "req_From (search_request pgn db q pg_opts)
               = Some ((PageFromOptions pgn pg_opts - 1) * PerPage pgn pg_opts)"
    by (simp add: req_From_search_request)
  moreover from a have "sint ((PageFromOptions pgn pg_opts - 1) * PerPage pgn pg_opts)
      = (sint (PageFromOptions pgn pg_opts) - 1) * sint (PerPage pgn pg_opts)"
    by (intro sint_offset_exact) simp_all
  ultimately
  show "\<exists>from. req_From (search_request pgn db q pg_opts) = Some from
           \<and> sint from = (sint (PageFromOptions pgn pg_opts) - 1) * sint (PerPage pgn pg_opts)"
    by simp
qed

theorem page_offset_witness:
  "req_Size (search_request pair_pagination label_db ''maps'' (10, 4)) = Some 10
   \<and> req_From (search_request pair_pagination label_db ''maps'' (10, 1)) = None
   \<and> (\<exists>from. req_From (search_request pair_pagination label_db ''maps'' (10, 4)) = Some from
         \<and> sint from = 30)"
proof -
  have n1: "sint (PageFromOptions pair_pagination (10, 1)) \<le> 1"
    by (simp add: pair_pagination_def)
  have n4: "1 < sint (PageFromOptions pair_pagination (10, 4))
        \<and> - (2 ^ 63) \<le> (sint (PageFromOptions pair_pagination (10, 4)) - 1)
                          * sint (PerPage pair_pagination (10, 4))
        \<and> (sint (PageFromOptions pair_pagination (10, 4)) - 1)
            * sint (PerPage pair_pagination (10, 4)) < 2 ^ 63"
    by (simp add: pair_pagination_def)
  have v: "(sint (PageFromOptions pair_pagination (10, 4)) - 1)
             * sint (PerPage pair_pagination (10, 4)) = 30"
    "PerPage pair_pagination (10, 4) = 10"
    by (simp_all add: pair_pagination_def)
  show ?thesis
    using page_offset [of pair_pagination label_db "''maps''" "(10, 4)", THEN conjunct1]
      page_offset [of pair_pagination label_db "''maps''" "(10, 1)",
        THEN conjunct2, THEN conjunct1, rule_format, OF n1]
      page_offset [of pair_pagination label_db "''maps''" "(10, 4)",
        THEN conjunct2, THEN conjunct2, THEN conjunct2, rule_format, OF n4]
      v
    by simp
qed

text \<open>
  C8 as stated fails for page size 10 and page number 922337203685477582: the
  product \<open>(N - 1) * S\<close> is 9223372036854775810, and the offset attached to the
  request is the 64-bit value that reads as -9223372036854775806.
\<close>

theorem page_offset_wraps:
  "fst far_page = 10 \<and> sint (snd far_page) = 922337203685477582
   \<and> (sint (PageFromOptions pair_pagination far_page) - 1)
       * sint (PerPage pair_pagination far_page) = 9223372036854775810
   \<and> req_From (search_request pair_pagination label_db ''maps'' far_page)
       = Some 9223372036854775810
   \<and> sint (9223372036854775810 :: 64 word) = - 9223372036854775806"
  by (simp add: req_From_search_request pair_pagination_def far_page_def)

text \<open>
  C9.  The body of the search request is the phrase match against the field
  \<^verbatim>\<open>search\<close> when the handle's mode is \<^verbatim>\<open>text\<close>, and the phrase match against
  the keyword field \<^verbatim>\<open>label.keyword\<close> in every other case; in both the query
  string stands between the two quotes as it was given, no character of it
  escaped, dropped or added.
\<close>

theorem query_body_interpolation:
  \<open>req_Body (search_request pgn db q pg_opts) =
     (if query_by db = ''text''
      then ''{"query": { "match_phrase": { "search": "'' @ q @ ''" } } }''
      else ''{"query": { "match_phrase": { "label.keyword": "'' @ q @ ''" } } }'')\<close>
  by (simp add: req_Body_search_request query_body_def)

theorem query_body_interpolation_witness:
  \<open>req_Body (search_request pair_pagination label_db ''O"Hara'' (10, 1))
     = ''{"query": { "match_phrase": { "label.keyword": "O"Hara" } } }''\<close>
  using query_body_interpolation [of pair_pagination label_db \<open>''O"Hara''\<close> "(10, 1)"]
  by (simp add: label_db_def)

subsection \<open>Query: the results\<close>





subsection \<open>Ingestion\<close>

lemmas ingest_eval = Index_def indexSource_def cb_def bi_cfg_def scripted_indexer_def
  document_def bulk_item_def plain_Marshal_def row_get_def outcome_event_def
  logger_Printf_def log_Printf_def monitor_Signal_def no_outputs_def Let_def



lemma cb_no_error:
  assumes "json_Marshal ops (document src row) = Inr enc_doc"
  shows "fst (cb ops cfg src row s) = None"
  using assms by (simp add: cb_def Let_def split: prod.splits option.splits)

lemma cb_schedule_failure:
  assumes "json_Marshal ops (document src row) = Inr enc_doc"
    and "bi_Add ops (snd s) (bulk_item (row_get row ''id'') enc_doc) = (Some e, evs, indexer')"
  shows "cb ops cfg src row s
           = (None, (log_Printf (FailedToScheduleLine (row_get row ''id'') e)
                       (run_callbacks cfg evs (fst s)), indexer'))"
  using assms by (simp add: cb_def Let_def)

lemma Source_Index_no_error:
  assumes "\<And>r s. fst (f r s) = None" and "\<forall>st \<in> set fd. \<exists>r. st = Row r"
  shows "fst (Source_Index fd f s) = None"
  using assms(2)
proof (induction fd arbitrary: s)
  case Nil
  then show ?case by simp
next
  case (Cons st fd)
  then obtain r where st: "st = Row r" by auto
  obtain s' where "f r s = (None, s')"
    using assms(1) [of r s] by (cases "f r s") auto
  with Cons st show ?case by simp
qed

lemma index_sources_no_error:
  assumes "\<forall>doc. \<exists>enc. json_Marshal ops doc = Inr enc"
    and "\<forall>src \<in> set sources. \<forall>st \<in> set (feed src). \<exists>r. st = Row r"
  shows "fst (index_sources ops cfg sources s) = None"
  using assms(2)
proof (induction sources arbitrary: s)
  case Nil
  then show ?case by simp
next
  case (Cons src sources)
  have "fst (cb ops cfg src r t) = None" for r t
    using assms(1) cb_no_error by metis
  then have "fst (indexSource ops cfg src s) = None"
    unfolding indexSource_def using Cons.prems by (intro Source_Index_no_error) auto
  then obtain s' where "indexSource ops cfg src s = (None, s')"
    by (cases "indexSource ops cfg src s") auto
  with Cons show ?case by simp
qed

lemma Index_no_error:
  assumes "\<forall>doc. \<exists>enc. json_Marshal ops doc = Inr enc"
    and "\<forall>src \<in> set sources. \<forall>st \<in> set (feed src). \<exists>r. st = Row r"
    and "\<exists>indexer. NewBulkIndexer ops (bi_cfg db) = Inr indexer"
    and "\<forall>indexer. fst (bi_Close ops indexer) = None"
  shows "fst (Index ops db sources out) = None"
proof -
  from assms(3) obtain indexer where n: "NewBulkIndexer ops (bi_cfg db) = Inr indexer" ..
  from index_sources_no_error [OF assms(1,2)]
  obtain s where i: "index_sources ops (bi_cfg db) sources (out, indexer) = (None, s)"
    by (metis prod.collapse)
  obtain evs indexer' where c: "bi_Close ops (snd s) = (None, evs, indexer')"
    using assms(4) by (metis prod.collapse)
  from n i c show ?thesis by (simp add: Index_def)
qed









text \<open>
  C6.  The failure callback of a row's bulk item does nothing but print one line,
  which names the document identifier, both for a transport error and for an
  error the backend reports with type and reason; the row callback returns no
  error whenever the document was encoded, whatever \<^verbatim>\<open>Add\<close> returns and whatever
  outcomes are reported; a scheduling failure is printed with the document
  identifier and the callback returns no error; and \<^verbatim>\<open>Index\<close> returns no error
  as long as the indexer is created, the sources iterate, the documents encode
  and \<^verbatim>\<open>Close\<close> succeeds, whatever \<^verbatim>\<open>Add\<close> returns and whichever documents fail.
\<close>

theorem document_failures_not_returned:
  "OnFailure (bulk_item doc_id enc_doc) res (Some e) out
     = out \<lparr> stderr_lines := stderr_lines out @ [FailedToIndexLine doc_id e] \<rparr>
   \<and> OnFailure (bulk_item doc_id enc_doc) res None out
     = out \<lparr> stderr_lines := stderr_lines out
               @ [FailedToIndexReasonLine doc_id (Error_Type res) (Error_Reason res)] \<rparr>
   \<and> (json_Marshal ops (document src row) = Inr enc_doc \<longrightarrow>
        fst (cb ops cfg src row s) = None)
   \<and> (json_Marshal ops (document src row) = Inr enc_doc
        \<and> bi_Add ops (snd s) (bulk_item (row_get row ''id'') enc_doc) = (Some e, evs, indexer')
      \<longrightarrow> cb ops cfg src row s
            = (None, (log_Printf (FailedToScheduleLine (row_get row ''id'') e)
                        (run_callbacks cfg evs (fst s)), indexer')))
   \<and> ((\<forall>doc. \<exists>enc. json_Marshal ops doc = Inr enc)
        \<and> (\<forall>src \<in> set sources. \<forall>st \<in> set (feed src). \<exists>r. st = Row r)
        \<and> (\<exists>indexer. NewBulkIndexer ops (bi_cfg db) = Inr indexer)
        \<and> (\<forall>indexer. fst (bi_Close ops indexer) = None)
      \<longrightarrow> fst (Index ops db sources out) = None)"
proof -
  have "OnFailure (bulk_item doc_id enc_doc) res (Some e) out
     = out \<lparr> stderr_lines := stderr_lines out @ [FailedToIndexLine doc_id e] \<rparr>"
    by (simp add: bulk_item_def log_Printf_def)
  moreover have "OnFailure (bulk_item doc_id enc_doc) res None out
     = out \<lparr> stderr_lines := stderr_lines out
               @ [FailedToIndexReasonLine doc_id (Error_Type res) (Error_Reason res)] \<rparr>"
    by (simp add: bulk_item_def log_Printf_def)
  moreover have "json_Marshal ops (document src row) = Inr enc_doc \<longrightarrow>
        fst (cb ops cfg src row s) = None"
    using cb_no_error by blast
  moreover have "json_Marshal ops (document src row) = Inr enc_doc
        \<and> bi_Add ops (snd s) (bulk_item (row_get row ''id'') enc_doc) = (Some e, evs, indexer')
      \<longrightarrow> cb ops cfg src row s
            = (None, (log_Printf (FailedToScheduleLine (row_get row ''id'') e)
                        (run_callbacks cfg evs (fst s)), indexer'))"
    by (auto simp: cb_schedule_failure)
  moreover have "(\<forall>doc. \<exists>enc. json_Marshal ops doc = Inr enc)
        \<and> (\<forall>src \<in> set sources. \<forall>st \<in> set (feed src). \<exists>r. st = Row r)
        \<and> (\<exists>indexer. NewBulkIndexer ops (bi_cfg db) = Inr indexer)
        \<and> (\<forall>indexer. fst (bi_Close ops indexer) = None)
      \<longrightarrow> fst (Index ops db sources out) = None"
    using Index_no_error by blast
  ultimately show ?thesis by (intro conjI)
qed

theorem document_failures_not_returned_witness:
  "cb failing_documents_indexer (bi_cfg stdout_db) lcsh row_n2 (no_outputs, [])
     = (None, (\<lparr> stdout_lines = [],
                 stderr_lines = [FailedToScheduleLine ''n2'' ''context canceled''],
                 signals = 0 \<rparr>, []))
   \<and> fst (Index failing_documents_indexer stdout_db [lcsh] no_outputs) = None
   \<and> stderr_lines (snd (Index failing_documents_indexer stdout_db [lcsh] no_outputs))
       = [FailedToScheduleLine ''n2'' ''context canceled'',
          FailedToIndexReasonLine ''n1'' ''mapper_parsing_exception'' ''failed to parse'',
          FailedToIndexLine ''n3'' ''unexpected EOF'']"
proof -
  note T = document_failures_not_returned [where ops = failing_documents_indexer
      and src = lcsh and row = row_n2
      and enc_doc = \<open>''{"id":"n2","label":"Charts","source":"lcsh"}''\<close>
      and cfg = "bi_cfg stdout_db" and s = "(no_outputs, [])" and e = "''context canceled''"
      and evs = "[]" and indexer' = "[]" and sources = "[lcsh]" and db = stdout_db
      and out = no_outputs]
  have m: \<open>json_Marshal failing_documents_indexer (document lcsh row_n2)
             = Inr ''{"id":"n2","label":"Charts","source":"lcsh"}''\<close>
    by (simp add: failing_documents_indexer_def scripted_indexer_def plain_Marshal_def
        document_def row_get_def lcsh_def row_n2_def)
  have a: \<open>bi_Add failing_documents_indexer (snd (no_outputs, []))
             (bulk_item (row_get row_n2 ''id'') ''{"id":"n2","label":"Charts","source":"lcsh"}'')
           = (Some ''context canceled'', [], [])\<close>
    by (simp add: failing_documents_indexer_def scripted_indexer_def reject_n2_def
        bulk_item_def row_get_def row_n2_def)
  have h1: "\<forall>doc. \<exists>enc. json_Marshal failing_documents_indexer doc = Inr enc"
    by (simp add: failing_documents_indexer_def scripted_indexer_def plain_Marshal_def)
  have h2: "\<forall>src \<in> set [lcsh]. \<forall>st \<in> set (feed src). \<exists>r. st = Row r"
    by (simp add: lcsh_def)
  have h3: "\<exists>indexer. NewBulkIndexer failing_documents_indexer (bi_cfg stdout_db) = Inr indexer"
    by (simp add: failing_documents_indexer_def scripted_indexer_def)
  have h4: "\<forall>indexer. fst (bi_Close failing_documents_indexer indexer) = None"
    by (simp add: failing_documents_indexer_def scripted_indexer_def)
  note T4 = T [THEN conjunct2, THEN conjunct2, THEN conjunct2]
  from T4 [THEN conjunct1, rule_format, OF conjI [OF m a]]
  have c: "cb failing_documents_indexer (bi_cfg stdout_db) lcsh row_n2 (no_outputs, [])
     = (None, (\<lparr> stdout_lines = [],
                 stderr_lines = [FailedToScheduleLine ''n2'' ''context canceled''],
                 signals = 0 \<rparr>, []))"
    by (simp add: log_Printf_def no_outputs_def row_get_def row_n2_def)
  from T4 [THEN conjunct2, rule_format, OF conjI [OF h1 conjI [OF h2 conjI [OF h3 h4]]]]
  have i: "fst (Index failing_documents_indexer stdout_db [lcsh] no_outputs) = None" .
  have l: "stderr_lines (snd (Index failing_documents_indexer stdout_db [lcsh] no_outputs))
       = [FailedToScheduleLine ''n2'' ''context canceled'',
          FailedToIndexReasonLine ''n1'' ''mapper_parsing_exception'' ''failed to parse'',
          FailedToIndexLine ''n3'' ''unexpected EOF'']"
    by (simp add: failing_documents_indexer_def ingest_eval lcsh_def stdout_db_def row_n1_def
        row_n2_def row_n3_def reject_n2_def n1_rejected_def)
  show ?thesis
    by (rule conjI [OF c conjI [OF i l]])
qed

lemma printed_stats_append: "printed_stats (ls @ ls') = printed_stats ls @ printed_stats ls'"
  by (induction ls rule: printed_stats.induct) simp_all

lemma printed_stats_logger_Printf:
  "printed_stats (stdout_lines (logger_Printf lw line out))
     = printed_stats (stdout_lines out)
       @ (case lw of Discard \<Rightarrow> [] | Stdout \<Rightarrow> printed_stats [line])"
  by (cases lw) (simp_all add: logger_Printf_def printed_stats_append)

lemma printed_stats_row_item:
  assumes "item = bulk_item (DocumentID item) (Body item)"
  shows "stdout_lines (OnSuccess item res out) = stdout_lines out"
    and "stdout_lines (OnFailure item res err out) = stdout_lines out"
proof -
  have "stdout_lines (OnSuccess (bulk_item d e) res out) = stdout_lines out"
    "stdout_lines (OnFailure (bulk_item d e) res err out) = stdout_lines out" for d e
    by (simp_all add: bulk_item_def log_Printf_def split: option.splits)
  with assms show "stdout_lines (OnSuccess item res out) = stdout_lines out"
    and "stdout_lines (OnFailure item res err out) = stdout_lines out"
    by metis+
qed

lemma run_callbacks_prints_no_stats:
  assumes "\<forall>ev \<in> set evs. about_row_item ev"
  shows "printed_stats (stdout_lines (run_callbacks (bi_cfg db) evs out))
           = printed_stats (stdout_lines out)"
  using assms
proof (induction "bi_cfg db" evs out rule: run_callbacks.induct)
  case (1 out)
  then show ?case by simp
next
  case (2 item res evs out)
  then show ?case by (simp add: printed_stats_row_item(1))
next
  case (3 item res err evs out)
  then show ?case by (simp add: printed_stats_row_item(2))
next
  case (4 err evs out)
  then show ?case by (simp add: bi_cfg_def printed_stats_logger_Printf split: log_writer.splits)
next
  case (5 evs out)
  then show ?case by (simp add: bi_cfg_def printed_stats_logger_Printf split: log_writer.splits)
qed

text \<open>
  C7 (as amended).  When the indexer was created, the sources were indexed and
  \<^verbatim>\<open>Close\<close> fails, \<^verbatim>\<open>Index\<close> returns that failure as its error, and returns at
  once: the outputs are the ones the indexer's callbacks left, and as long as the
  callbacks are the ones of the rows' items no statistics are printed on that
  path.  The statistics, those of the indexer after \<^verbatim>\<open>Close\<close>, are handed to the
  handle's logger only when \<^verbatim>\<open>Close\<close> succeeds.
\<close>

theorem close_failure_returned:
  assumes "NewBulkIndexer ops (bi_cfg db) = Inr indexer"
    and "index_sources ops (bi_cfg db) sources (out, indexer) = (None, (out1, indexer1))"
    and "bi_Close ops indexer1 = (close_err, evs, indexer2)"
  shows "(\<forall>e. close_err = Some e \<longrightarrow>
            Index ops db sources out
              = (Some (FailedToCloseIndexer e), run_callbacks (bi_cfg db) evs out1)
            \<and> ((\<forall>ev \<in> set evs. about_row_item ev) \<longrightarrow>
                 printed_stats (stdout_lines (snd (Index ops db sources out)))
                   = printed_stats (stdout_lines out1)))
       \<and> (close_err = None \<longrightarrow>
            Index ops db sources out
              = (None, logger_Printf (logger db) (StatsLine (bi_Stats ops indexer2))
                         (run_callbacks (bi_cfg db) evs out1)))"
proof -
  have f: "Index ops db sources out
             = (Some (FailedToCloseIndexer e), run_callbacks (bi_cfg db) evs out1)"
    if "close_err = Some e" for e
    using assms that by (simp add: Index_def)
  have s: "Index ops db sources out
             = (None, logger_Printf (logger db) (StatsLine (bi_Stats ops indexer2))
                        (run_callbacks (bi_cfg db) evs out1))"
    if "close_err = None"
    using assms that by (simp add: Index_def)
  from f s show ?thesis
    by (simp add: run_callbacks_prints_no_stats)
qed

theorem close_failure_returned_witness:
  "Index failing_close_indexer stdout_db [lcnaf] no_outputs
     = (Some (FailedToCloseIndexer ''context canceled''),
        \<lparr> stdout_lines = [], stderr_lines = [], signals = 2 \<rparr>)
   \<and> Index steady_indexer stdout_db [lcnaf] no_outputs
     = (None,
        \<lparr> stdout_lines = [FlushEndLine,
            StatsLine \<lparr> NumAdded = 2, NumFlushed = 2, NumFailed = 0, NumIndexed = 2,
              NumCreated = 0, NumUpdated = 0, NumDeleted = 0, NumRequests = 1 \<rparr>],
          stderr_lines = [], signals = 2 \<rparr>)"
proof -
  let ?items = \<open>[bulk_item ''n1'' ''{"id":"n1","label":"Maps","source":"lcnaf"}'',
                 bulk_item ''n1'' ''{"id":"n1","label":"Atlases","source":"lcnaf"}'']\<close>
  let ?out1 = "\<lparr> stdout_lines = [], stderr_lines = [], signals = 2 \<rparr>"
  have sel [simp]: "DocumentID (bulk_item d e) = d" for d e
    by (simp add: bulk_item_def)
  have n1: "NewBulkIndexer failing_close_indexer (bi_cfg stdout_db) = Inr []"
    by (simp add: failing_close_indexer_def scripted_indexer_def)
  have i1: "index_sources failing_close_indexer (bi_cfg stdout_db) [lcnaf] (no_outputs, [])
              = (None, (?out1, ?items))"
    by (simp add: failing_close_indexer_def indexSource_def cb_def scripted_indexer_def
        document_def plain_Marshal_def row_get_def monitor_Signal_def no_outputs_def
        lcnaf_def row_n1_def row_n1_again_def accept_all_def Let_def)
  have c1: "bi_Close failing_close_indexer ?items = (Some ''context canceled'', [], ?items)"
    by (simp add: failing_close_indexer_def scripted_indexer_def)
  have n2: "NewBulkIndexer steady_indexer (bi_cfg stdout_db) = Inr []"
    by (simp add: steady_indexer_def scripted_indexer_def)
  have i2: "index_sources steady_indexer (bi_cfg stdout_db) [lcnaf] (no_outputs, [])
              = (None, (?out1, ?items))"
    by (simp add: steady_indexer_def indexSource_def cb_def scripted_indexer_def
        document_def plain_Marshal_def row_get_def monitor_Signal_def no_outputs_def
        lcnaf_def row_n1_def row_n1_again_def accept_all_def Let_def)
  have c2: "bi_Close steady_indexer ?items
              = (None, map (outcome_event all_indexed) ?items @ [FlushEnded], ?items)"
    by (simp add: steady_indexer_def scripted_indexer_def)
  from close_failure_returned [OF n1 i1 c1, THEN conjunct1, rule_format, OF refl,
      THEN conjunct1]
  have r1: "Index failing_close_indexer stdout_db [lcnaf] no_outputs
     = (Some (FailedToCloseIndexer ''context canceled''), ?out1)"
    by simp
  from close_failure_returned [OF n2 i2 c2, THEN conjunct2, rule_format, OF refl]
  have r2: "Index steady_indexer stdout_db [lcnaf] no_outputs
     = (None,
        \<lparr> stdout_lines = [FlushEndLine,
            StatsLine \<lparr> NumAdded = 2, NumFlushed = 2, NumFailed = 0, NumIndexed = 2,
              NumCreated = 0, NumUpdated = 0, NumDeleted = 0, NumRequests = 1 \<rparr>],
          stderr_lines = [], signals = 2 \<rparr>)"
    by (simp add: steady_indexer_def scripted_indexer_def outcome_event_def all_indexed_def
        bulk_item_def bi_cfg_def stdout_db_def logger_Printf_def)
  show ?thesis
    by (rule conjI [OF r1 r2])
qed

text \<open>
  C7 as stated fails when \<^verbatim>\<open>Close\<close> fails after the three rows of a source were
  submitted: \<^verbatim>\<open>Index\<close> returns the failure, and although the handle's logger
  writes to standard output, nothing was printed there, no statistics either.
\<close>

theorem close_failure_prints_no_stats:
  "NumAdded (bi_Stats failing_close_indexer
      (snd (snd (index_sources failing_close_indexer (bi_cfg stdout_db) [lcsh]
                   (no_outputs, []))))) = 3
   \<and> logger stdout_db = Stdout
   \<and> Index failing_close_indexer stdout_db [lcsh] no_outputs
     = (Some (FailedToCloseIndexer ''context canceled''),
        \<lparr> stdout_lines = [], stderr_lines = [], signals = 3 \<rparr>)"
  by (simp add: failing_close_indexer_def ingest_eval lcsh_def stdout_db_def row_n1_def
      row_n2_def row_n3_def accept_all_def)

end
